theory Spec2Isabelle
  imports Main "HOL-Library.Word"
begin

section \<open>Data transfer interfaces (src/core/xfer.c)\<close>

text \<open>
  The file implements the dispatch layer of a duplex data transfer interface: five
  forwarding functions that resolve the destination of an interface and call the
  matching method of the destination's operations table, a set of helper methods meant
  to be placed in such tables, and the null interface to which unplugged interfaces
  are connected.

  The embedding is shallow. Objects live in an explicit store; a method of an
  operations table is a function on that store (a state transformer returning the
  status code where the C function returns \<open>int\<close>). A method written by a user of the
  interface may do anything to the store, which covers whatever it does by calling
  back into this layer before it returns. Methods are assumed to return.
\<close>

subsection \<open>Pointers\<close>

text \<open>
  Byte addresses and \<open>size_t\<close> values are natural numbers: no claim depends on their
  width. A pointer to a \<open>struct xfer_interface\<close> is either the address of the static
  object \<open>null_xfer\<close> or the address of some other interface object; likewise for
  operations tables. A pointer to the \<open>intf\<close> member of an interface is identified with
  the pointer to the interface that contains it.
\<close>

type_synonym addr = nat
type_synonym byte = "8 word"

datatype xfer_ref = Null_xfer | Xfer nat
datatype ops_ref = Null_xfer_ops | Ops nat
datatype iob_ref = Iob nat
type_synonym refcnt_ref = nat

text \<open>The trailing arguments of a redirection, as \<open>va_start\<close> packages them.\<close>

datatype va_arg = Va_int int | Va_ptr addr
type_synonym va_list = "va_arg list"

subsection \<open>Objects and the store\<close>

text \<open>
  \<open>struct interface\<close> and \<open>struct xfer_interface\<close>, with the members that the static
  initialiser of \<open>null_xfer\<close> names: \<open>intf.dest\<close>, \<open>intf.refcnt\<close> (a null pointer is
  \<open>None\<close>) and \<open>op\<close>.
\<close>

record interface =
  dest :: xfer_ref
  refcnt :: "refcnt_ref option"

record xfer_interface =
  intf :: interface
  op :: ops_ref

text \<open>
  Modelled from the spec: \<open>struct io_buffer\<close> is declared in a header that is not part
  of the source at hand. The spec describes a structured buffer as bytes with explicit
  length metadata; the source reads its member \<open>data\<close>, the pointer to the first byte.
\<close>

record io_buffer =
  data :: addr
  dlen :: nat

text \<open>
  The store: the interface objects, the shared-ownership counters, the I/O buffer
  descriptors, byte memory, the state of the buffer allocator, and the log of buffers
  released so far (most recent last).
\<close>

record xfer_state =
  intfs :: "xfer_ref \<Rightarrow> xfer_interface"
  refcnts :: "refcnt_ref \<Rightarrow> int"
  iobufs :: "iob_ref \<Rightarrow> io_buffer"
  mem :: "addr \<Rightarrow> byte"
  iob_next :: nat
  heap_next :: addr
  heap_avail :: nat
  released :: "iob_ref list"

text \<open>
  \<open>struct xfer_interface_operations\<close>: the five methods, in the order of the
  initialiser of \<open>null_xfer_ops\<close>. The members are named \<open>op_\<close>\<dots> because the dispatch
  functions of the same names are constants of their own here.
\<close>

record xfer_interface_operations =
  op_close :: "xfer_ref \<Rightarrow> int \<Rightarrow> xfer_state \<Rightarrow> xfer_state"
  op_vredirect :: "xfer_ref \<Rightarrow> int \<Rightarrow> va_list \<Rightarrow> xfer_state \<Rightarrow> int \<times> xfer_state"
  op_seek :: "xfer_ref \<Rightarrow> nat \<Rightarrow> xfer_state \<Rightarrow> int \<times> xfer_state"
  op_deliver :: "xfer_ref \<Rightarrow> iob_ref \<Rightarrow> xfer_state \<Rightarrow> int \<times> xfer_state"
  op_deliver_raw :: "xfer_ref \<Rightarrow> addr \<Rightarrow> nat \<Rightarrow> xfer_state \<Rightarrow> int \<times> xfer_state"

text \<open>
  The operations tables are code and constant data: they are kept outside the mutable
  store, as a function from table addresses to tables.
\<close>

type_synonym op_tables = "ops_ref \<Rightarrow> xfer_interface_operations"

subsection \<open>Helpers declared outside xfer.c\<close>

text \<open>
  Modelled from the spec: \<open>xfer_dest\<close> is an inline function of a header that is not
  part of the source at hand. The spec's \<open>getPartner\<close>: returns the handle's current
  partner, with no side effect and no failure mode.
\<close>

definition xfer_dest :: "xfer_state \<Rightarrow> xfer_ref \<Rightarrow> xfer_ref" where
  "xfer_dest s xfer = dest (intf (intfs s xfer))"

text \<open>
  Modelled from the spec: releasing one shared-ownership interest decrements the
  counter; an absent counter is left alone.
\<close>

definition ref_put :: "refcnt_ref option \<Rightarrow> xfer_state \<Rightarrow> xfer_state" where
  "ref_put r s =
     (case r of
        None \<Rightarrow> s
      | Some c \<Rightarrow> s\<lparr>refcnts := (refcnts s)(c := refcnts s c - 1)\<rparr>)"

text \<open>
  Modelled from the spec: \<open>xfer_unplug\<close> is an inline function of the same missing
  header. The spec's \<open>unplug\<close>: sets the handle's partner to the Null Sentinel,
  releasing any shared-ownership interest previously held in the old partner.
\<close>

definition xfer_unplug :: "xfer_ref \<Rightarrow> xfer_state \<Rightarrow> xfer_state" where
  "xfer_unplug xfer s =
     (let old = xfer_dest s xfer;
          s1 = ref_put (refcnt (intf (intfs s old))) s;
          x = intfs s1 xfer
      in s1\<lparr>intfs := (intfs s1)(xfer := x\<lparr>intf := (intf x)\<lparr>dest := Null_xfer\<rparr>\<rparr>)\<rparr>)"

text \<open>
  Modelled from the spec: \<open>alloc_iob\<close>, \<open>free_iob\<close>, \<open>iob_len\<close> and \<open>iob_put\<close> belong
  to the I/O buffer code, which is not part of the source at hand. The spec treats
  allocation and release as an opaque capability, \<open>allocate(len) -> buffer\<close> (which may
  fail) and \<open>release(buffer)\<close>. Here allocation takes the next \<open>len\<close> bytes of a pool
  of \<open>heap_avail\<close> bytes and a fresh descriptor holding no data yet; it fails, leaving
  the store as it is, when the pool is too small. Release is recorded in the log.
\<close>

definition alloc_iob :: "nat \<Rightarrow> xfer_state \<Rightarrow> iob_ref option \<times> xfer_state" where
  "alloc_iob n s =
     (if n \<le> heap_avail s
      then (Some (Iob (iob_next s)),
            s\<lparr>iobufs := (iobufs s)(Iob (iob_next s) := \<lparr>data = heap_next s, dlen = 0\<rparr>),
              iob_next := Suc (iob_next s),
              heap_next := heap_next s + n,
              heap_avail := heap_avail s - n\<rparr>)
      else (None, s))"

definition free_iob :: "iob_ref \<Rightarrow> xfer_state \<Rightarrow> xfer_state" where
  "free_iob iobuf s = s\<lparr>released := released s @ [iobuf]\<rparr>"

definition iob_len :: "io_buffer \<Rightarrow> nat" where
  "iob_len b = dlen b"

text \<open>\<open>iob_put\<close> appends \<open>n\<close> bytes to the buffer and returns the address of the first.\<close>

definition iob_put :: "iob_ref \<Rightarrow> nat \<Rightarrow> xfer_state \<Rightarrow> addr \<times> xfer_state" where
  "iob_put iobuf n s =
     (let b = iobufs s iobuf
      in (data b + dlen b, s\<lparr>iobufs := (iobufs s)(iobuf := b\<lparr>dlen := dlen b + n\<rparr>)\<rparr>))"

text \<open>
  \<open>memcpy\<close> of the C library: the \<open>n\<close> bytes at \<open>src\<close>, as they are before the call,
  are written at \<open>dst\<close>.
\<close>

definition memcpy :: "addr \<Rightarrow> addr \<Rightarrow> nat \<Rightarrow> xfer_state \<Rightarrow> xfer_state" where
  "memcpy dst src n s =
     s\<lparr>mem := (\<lambda>a. if dst \<le> a \<and> a < dst + n then mem s (src + (a - dst)) else mem s a)\<rparr>"

text \<open>The bytes of a memory region, and the bytes an I/O buffer holds.\<close>

definition read_bytes :: "xfer_state \<Rightarrow> addr \<Rightarrow> nat \<Rightarrow> byte list" where
  "read_bytes s p n = map (\<lambda>i. mem s (p + i)) [0..<n]"

definition iob_bytes :: "xfer_state \<Rightarrow> iob_ref \<Rightarrow> byte list" where
  "iob_bytes s iobuf = read_bytes s (data (iobufs s iobuf)) (iob_len (iobufs s iobuf))"

subsection \<open>The dispatch functions\<close>

definition close :: "op_tables \<Rightarrow> xfer_ref \<Rightarrow> int \<Rightarrow> xfer_state \<Rightarrow> xfer_state" where
  "close tabs xfer rc s =
     (let d = xfer_dest s xfer;
          s1 = op_close (tabs (op (intfs s d))) d rc s
      in xfer_unplug xfer s1)"

definition seek :: "op_tables \<Rightarrow> xfer_ref \<Rightarrow> nat \<Rightarrow> xfer_state \<Rightarrow> int \<times> xfer_state" where
  "seek tabs xfer pos s =
     (let d = xfer_dest s xfer
      in op_seek (tabs (op (intfs s d))) d pos s)"

definition vredirect ::
  "op_tables \<Rightarrow> xfer_ref \<Rightarrow> int \<Rightarrow> va_list \<Rightarrow> xfer_state \<Rightarrow> int \<times> xfer_state" where
  "vredirect tabs xfer type args s =
     (let d = xfer_dest s xfer
      in op_vredirect (tabs (op (intfs s d))) d type args s)"

text \<open>
  \<open>redirect\<close> is variadic: \<open>va_start\<close> makes a \<open>va_list\<close> of the arguments after
  \<open>type\<close>, here the list of them, and \<open>va_end\<close> has no effect on the store.
\<close>

definition va_start :: "va_arg list \<Rightarrow> va_list" where
  "va_start varargs = varargs"

definition redirect ::
  "op_tables \<Rightarrow> xfer_ref \<Rightarrow> int \<Rightarrow> va_arg list \<Rightarrow> xfer_state \<Rightarrow> int \<times> xfer_state" where
  "redirect tabs xfer type varargs s =
     (let args = va_start varargs;
          (rc, s1) = vredirect tabs xfer type args s
      in (rc, s1))"

definition deliver ::
  "op_tables \<Rightarrow> xfer_ref \<Rightarrow> iob_ref \<Rightarrow> xfer_state \<Rightarrow> int \<times> xfer_state" where
  "deliver tabs xfer iobuf s =
     (let d = xfer_dest s xfer
      in op_deliver (tabs (op (intfs s d))) d iobuf s)"

definition deliver_raw ::
  "op_tables \<Rightarrow> xfer_ref \<Rightarrow> addr \<Rightarrow> nat \<Rightarrow> xfer_state \<Rightarrow> int \<times> xfer_state" where
  "deliver_raw tabs xfer p n s =
     (let d = xfer_dest s xfer
      in op_deliver_raw (tabs (op (intfs s d))) d p n s)"

subsection \<open>Helper methods\<close>

definition ignore_close :: "xfer_ref \<Rightarrow> int \<Rightarrow> xfer_state \<Rightarrow> xfer_state" where
  "ignore_close xfer rc s = s"

definition ignore_vredirect ::
  "xfer_ref \<Rightarrow> int \<Rightarrow> va_list \<Rightarrow> xfer_state \<Rightarrow> int \<times> xfer_state" where
  "ignore_vredirect xfer type args s = (0, s)"

definition ignore_seek :: "xfer_ref \<Rightarrow> nat \<Rightarrow> xfer_state \<Rightarrow> int \<times> xfer_state" where
  "ignore_seek xfer pos s = (0, s)"

definition deliver_as_raw ::
  "op_tables \<Rightarrow> xfer_ref \<Rightarrow> iob_ref \<Rightarrow> xfer_state \<Rightarrow> int \<times> xfer_state" where
  "deliver_as_raw tabs xfer iobuf s =
     (let (rc, s1) = op_deliver_raw (tabs (op (intfs s xfer))) xfer
                       (data (iobufs s iobuf)) (iob_len (iobufs s iobuf)) s;
          s2 = free_iob iobuf s1
      in (rc, s2))"

text \<open>
  \<open>ENOMEM\<close> comes from \<open>errno.h\<close>, which is not part of the source at hand: its value
  is a parameter.
\<close>

definition deliver_as_iobuf ::
  "op_tables \<Rightarrow> int \<Rightarrow> xfer_ref \<Rightarrow> addr \<Rightarrow> nat \<Rightarrow> xfer_state \<Rightarrow> int \<times> xfer_state" where
  "deliver_as_iobuf tabs ENOMEM xfer p n s =
     (case alloc_iob n s of
        (None, s1) \<Rightarrow> (- ENOMEM, s1)
      | (Some iobuf, s1) \<Rightarrow>
          (let (q, s2) = iob_put iobuf n s1;
               s3 = memcpy q p n s2
           in op_deliver (tabs (op (intfs s3 xfer))) xfer iobuf s3))"

text \<open>
  The body of \<open>ignore_deliver_raw\<close> is a \<open>DBGC\<close> diagnostic, which only prints (and is
  compiled out of a build without debugging), and \<open>return 0\<close>.
\<close>

definition ignore_deliver_raw ::
  "xfer_ref \<Rightarrow> addr \<Rightarrow> nat \<Rightarrow> xfer_state \<Rightarrow> int \<times> xfer_state" where
  "ignore_deliver_raw xfer p n s = (0, s)"

subsection \<open>The null interface\<close>

definition null_xfer_ops :: "op_tables \<Rightarrow> xfer_interface_operations" where
  "null_xfer_ops tabs =
     \<lparr>op_close = ignore_close,
      op_vredirect = ignore_vredirect,
      op_seek = ignore_seek,
      op_deliver = deliver_as_raw tabs,
      op_deliver_raw = ignore_deliver_raw\<rparr>"

definition null_xfer :: xfer_interface where
  "null_xfer = \<lparr>intf = \<lparr>dest = Null_xfer, refcnt = None\<rparr>, op = Null_xfer_ops\<rparr>"

text \<open>
  The static objects are where the program put them: the store holds \<open>null_xfer\<close> at
  its address with the value of its initialiser, and the table memory holds
  \<open>null_xfer_ops\<close> at its address.
\<close>

definition null_intact :: "op_tables \<Rightarrow> xfer_state \<Rightarrow> bool" where
  "null_intact tabs s \<longleftrightarrow> intfs s Null_xfer = null_xfer \<and> tabs Null_xfer_ops = null_xfer_ops tabs"

subsection \<open>An example program\<close>

text \<open>
  Tables and a store on which the properties below are run. The table \<open>tag_ops k\<close>
  answers with statuses that carry \<open>k\<close>, notes the reason of a close in byte memory at
  address \<open>k\<close> and releases the buffers delivered to it. The table \<open>hangup_ops\<close>
  reacts to every message by tearing the connection down: it unplugs the interface
  that received the message and the interface at the other end, which is the one
  whose call is then still in flight.
\<close>

definition tag_ops :: "nat \<Rightarrow> xfer_interface_operations" where
  "tag_ops k =
     \<lparr>op_close = (\<lambda>xfer rc s. s\<lparr>mem := (mem s)(k := word_of_int rc)\<rparr>),
      op_vredirect = (\<lambda>xfer type args s. (int k + type, s)),
      op_seek = (\<lambda>xfer pos s. (int k + int pos, s)),
      op_deliver = (\<lambda>xfer iobuf s. (int k, free_iob iobuf s)),
      op_deliver_raw = (\<lambda>xfer p n s. (int k + int n, s))\<rparr>"

definition hangup :: "xfer_ref \<Rightarrow> xfer_state \<Rightarrow> xfer_state" where
  "hangup xfer s = xfer_unplug (xfer_dest s xfer) (xfer_unplug xfer s)"

definition hangup_ops :: xfer_interface_operations where
  "hangup_ops =
     \<lparr>op_close = (\<lambda>xfer rc s. hangup xfer s),
      op_vredirect = (\<lambda>xfer type args s. (- 5, hangup xfer s)),
      op_seek = (\<lambda>xfer pos s. (- 5, hangup xfer s)),
      op_deliver = (\<lambda>xfer iobuf s. (- 5, hangup xfer (free_iob iobuf s))),
      op_deliver_raw = (\<lambda>xfer p n s. (- 5, hangup xfer s))\<rparr>"

text \<open>
  \<open>link_tabs user\<close> is the table memory of a program whose own tables are \<open>user\<close>:
  \<open>null_xfer_ops\<close> at its address and \<open>user k\<close> at \<open>Ops k\<close>. The \<open>deliver\<close> method
  of the null table looks the receiver's table up again, so the table memory is given
  to it in a first version whose null table has a stand-in for that one method.
\<close>

definition link_tabs :: "(nat \<Rightarrow> xfer_interface_operations) \<Rightarrow> op_tables" where
  "link_tabs user r =
     (case r of
        Ops k \<Rightarrow> user k
      | Null_xfer_ops \<Rightarrow>
          null_xfer_ops (\<lambda>r'. case r' of
              Ops k \<Rightarrow> user k
            | Null_xfer_ops \<Rightarrow>
                \<lparr>op_close = ignore_close, op_vredirect = ignore_vredirect,
                 op_seek = ignore_seek, op_deliver = (\<lambda>xfer iobuf s. (0, free_iob iobuf s)),
                 op_deliver_raw = ignore_deliver_raw\<rparr>))"

definition example_tabs :: op_tables where
  "example_tabs = link_tabs (\<lambda>k. if k = 9 then hangup_ops else tag_ops k)"

text \<open>
  In the example store the interfaces 1 and 2 are plugged into each other, and so are
  8 and 9; every other interface is unplugged. Interface \<open>k\<close> has the table \<open>Ops k\<close>
  and the counter \<open>k\<close>. Every buffer descriptor points at the five bytes of
  \<open>hello\<close> at address 100, and the allocator has 64 bytes left.
\<close>

definition hello :: "byte list" where
  "hello = [104, 101, 108, 108, 111]"

definition example_dest :: "nat \<Rightarrow> xfer_ref" where
  "example_dest k =
     (if k = 1 then Xfer 2 else if k = 2 then Xfer 1
      else if k = 8 then Xfer 9 else if k = 9 then Xfer 8 else Null_xfer)"

definition example_state :: xfer_state where
  "example_state =
     \<lparr>intfs = (\<lambda>r. case r of
                  Null_xfer \<Rightarrow> null_xfer
                | Xfer k \<Rightarrow> \<lparr>intf = \<lparr>dest = example_dest k, refcnt = Some k\<rparr>, op = Ops k\<rparr>),
      refcnts = (\<lambda>c. 1),
      iobufs = (\<lambda>b. \<lparr>data = 100, dlen = 5\<rparr>),
      mem = (\<lambda>a. if 100 \<le> a \<and> a < 105 then hello ! (a - 100) else 0),
      iob_next = 1,
      heap_next = 200,
      heap_avail = 64,
      released = []\<rparr>"

section \<open>Properties\<close>

subsection \<open>Auxiliary facts\<close>


lemma xfer_dest_unplug: "xfer_dest (xfer_unplug h s) h = Null_xfer"
  by (simp add: xfer_unplug_def xfer_dest_def Let_def)


text \<open>Unplugging an interface that is already unplugged changes nothing.\<close>

lemma xfer_unplug_idle:
  assumes "intfs s Null_xfer = null_xfer" and "xfer_dest s h = Null_xfer"
  shows "xfer_unplug h s = s"
proof -
  let ?x = "intfs s h"
  have put: "ref_put (refcnt (intf (intfs s (xfer_dest s h)))) s = s"
    using assms by (simp add: ref_put_def null_xfer_def)
  have "(intf ?x)\<lparr>dest := Null_xfer\<rparr> = intf ?x"
    using assms(2) by (simp add: xfer_dest_def)
  then have "?x\<lparr>intf := (intf ?x)\<lparr>dest := Null_xfer\<rparr>\<rparr> = ?x"
    by simp
  then have "(intfs s)(h := ?x\<lparr>intf := (intf ?x)\<lparr>dest := Null_xfer\<rparr>\<rparr>) = intfs s"
    by simp
  then show ?thesis
    by (simp add: xfer_unplug_def Let_def put)
qed


lemma released_unplug: "released (xfer_unplug h s) = released s"
  by (simp add: xfer_unplug_def ref_put_def Let_def split: option.split)

text \<open>What allocation does when it fails and when it succeeds.\<close>

lemma alloc_iob_None: "alloc_iob n s = (None, s1) \<Longrightarrow> s1 = s \<and> heap_avail s < n"
  by (simp add: alloc_iob_def split: if_splits)

lemma alloc_iob_Some:
  assumes "alloc_iob n s = (Some b, s1)"
  shows "b = Iob (iob_next s)"
    and "s1 = s\<lparr>iobufs := (iobufs s)(Iob (iob_next s) := \<lparr>data = heap_next s, dlen = 0\<rparr>),
                iob_next := Suc (iob_next s),
                heap_next := heap_next s + n,
                heap_avail := heap_avail s - n\<rparr>"
  using assms by (auto simp add: alloc_iob_def split: if_splits)

lemma fst_iob_put: "fst (iob_put b n s) = data (iobufs s b) + dlen (iobufs s b)"
  by (simp add: iob_put_def Let_def)

lemma intfs_iob_put: "intfs (snd (iob_put b n s)) = intfs s"
  by (simp add: iob_put_def Let_def)

lemma intfs_memcpy: "intfs (memcpy q p n s) = intfs s"
  by (simp add: memcpy_def)

lemma read_bytes_memcpy: "read_bytes (memcpy q p n s) q n = read_bytes s p n"
  by (simp add: read_bytes_def memcpy_def)

text \<open>
  After a successful allocation \<open>deliver_as_iobuf\<close> is one call of the receiver's own
  \<open>deliver\<close> method, on a store in which the new buffer holds the caller's bytes.
\<close>

lemma deliver_as_iobuf_Some:
  assumes "alloc_iob n s = (Some b, s1)"
  shows "deliver_as_iobuf tabs E h p n s =
           op_deliver (tabs (op (intfs s h))) h b (memcpy (heap_next s) p n (snd (iob_put b n s1)))"
proof -
  have q: "fst (iob_put b n s1) = heap_next s"
    by (simp add: fst_iob_put alloc_iob_Some [OF assms])
  have i: "intfs s1 = intfs s"
    by (simp add: alloc_iob_Some(2) [OF assms])
  show ?thesis
    by (simp add: deliver_as_iobuf_def assms case_prod_beta Let_def q i intfs_memcpy intfs_iob_put)
qed

lemma filled_buffer:
  assumes "alloc_iob n s = (Some b, s1)" and "s3 = memcpy (heap_next s) p n (snd (iob_put b n s1))"
  shows "iob_bytes s3 b = read_bytes s p n" and "iob_len (iobufs s3 b) = n"
    and "intfs s3 = intfs s" and "released s3 = released s" and "refcnts s3 = refcnts s"
proof -
  note a = alloc_iob_Some [OF assms(1)]
  let ?s2 = "snd (iob_put b n s1)"
  have b3: "iobufs s3 b = \<lparr>data = heap_next s, dlen = n\<rparr>"
    unfolding assms(2) by (simp add: a iob_put_def memcpy_def Let_def)
  have m2: "mem ?s2 = mem s"
    by (simp add: a iob_put_def Let_def)
  have "read_bytes s3 (heap_next s) n = read_bytes ?s2 p n"
    unfolding assms(2) by (rule read_bytes_memcpy)
  also have "\<dots> = read_bytes s p n"
    by (simp add: read_bytes_def m2)
  finally show "iob_bytes s3 b = read_bytes s p n"
    by (simp add: iob_bytes_def b3 iob_len_def)
  show "iob_len (iobufs s3 b) = n"
    by (simp add: b3 iob_len_def)
  show "intfs s3 = intfs s" "released s3 = released s" "refcnts s3 = refcnts s"
    unfolding assms(2) by (simp_all add: a iob_put_def memcpy_def Let_def)
qed

text \<open>
  \<open>deliver_as_raw\<close> reads only the \<open>deliver_raw\<close> members of the table memory, so
  \<open>link_tabs\<close> does hold \<open>null_xfer_ops\<close> at its address.
\<close>

lemma deliver_as_raw_cong:
  "(\<And>r. op_deliver_raw (tabs r) = op_deliver_raw (tabs' r)) \<Longrightarrow>
   deliver_as_raw tabs = deliver_as_raw tabs'"
  by (intro ext) (simp add: deliver_as_raw_def)

lemma link_tabs_null: "link_tabs user Null_xfer_ops = null_xfer_ops (link_tabs user)"
proof -
  have "deliver_as_raw (link_tabs user) = deliver_as_raw (\<lambda>r'. case r' of
              Ops k \<Rightarrow> user k
            | Null_xfer_ops \<Rightarrow>
                \<lparr>op_close = ignore_close, op_vredirect = ignore_vredirect,
                 op_seek = ignore_seek, op_deliver = (\<lambda>xfer iobuf s. (0, free_iob iobuf s)),
                 op_deliver_raw = ignore_deliver_raw\<rparr>)"
    by (rule deliver_as_raw_cong) (simp add: link_tabs_def null_xfer_ops_def split: ops_ref.split)
  then show ?thesis
    by (simp add: link_tabs_def null_xfer_ops_def)
qed

lemma example_tabs_Ops: "example_tabs (Ops k) = (if k = 9 then hangup_ops else tag_ops k)"
  by (simp add: example_tabs_def link_tabs_def)

lemma example_tabs_null: "example_tabs Null_xfer_ops = null_xfer_ops example_tabs"
  by (simp add: example_tabs_def link_tabs_null)

lemma example_intfs_Xfer:
  "intfs example_state (Xfer k) =
     \<lparr>intf = \<lparr>dest = example_dest k, refcnt = Some k\<rparr>, op = Ops k\<rparr>"
  by (simp add: example_state_def)

lemma example_intfs_null: "intfs example_state Null_xfer = null_xfer"
  by (simp add: example_state_def)

text \<open>Facts about the example.\<close>

lemma example_read_hello: "read_bytes example_state 100 5 = hello"
  by (simp add: read_bytes_def example_state_def hello_def upt_rec)

lemma example_alloc:
  "alloc_iob 5 example_state =
     (Some (Iob 1),
      example_state\<lparr>iobufs := (iobufs example_state)(Iob 1 := \<lparr>data = 200, dlen = 0\<rparr>),
        iob_next := 2, heap_next := 205, heap_avail := 59\<rparr>)"
  by (simp add: alloc_iob_def example_state_def)

lemma example_alloc_fails:
  "alloc_iob 5 (example_state\<lparr>heap_avail := 3\<rparr>) = (None, example_state\<lparr>heap_avail := 3\<rparr>)"
  by (simp add: alloc_iob_def)


subsection \<open>The dispatch functions\<close>

text \<open>
  Claim C1. Every dispatch function calls the method registered in the operations
  table of the destination of the handle, with the destination as receiver and the
  caller's arguments as they are, and returns what that method returns (\<open>close\<close>,
  which returns nothing, goes on to unplug the handle). With \<open>d\<close> the destination of
  \<open>h\<close> and \<open>t\<close> the table that \<open>d\<close> points to, each function is the corresponding
  method of \<open>t\<close> applied to \<open>d\<close>. No other table is consulted, that of \<open>h\<close> included:
  a table memory that holds \<open>t\<close> at the same address and anything else elsewhere gives
  the same outcome.
\<close>

theorem dispatch_calls_partner_method:
  assumes "d = xfer_dest s h" and "t = tabs (op (intfs s d))"
  shows "close tabs h rc s = xfer_unplug h (op_close t d rc s)
   \<and> seek tabs h pos s = op_seek t d pos s
   \<and> vredirect tabs h ty args s = op_vredirect t d ty args s
   \<and> redirect tabs h ty args s = op_vredirect t d ty args s
   \<and> deliver tabs h b s = op_deliver t d b s
   \<and> deliver_raw tabs h p n s = op_deliver_raw t d p n s
   \<and> (\<forall>tabs'. tabs' (op (intfs s d)) = t \<longrightarrow>
          close tabs' h rc s = close tabs h rc s
        \<and> seek tabs' h pos s = seek tabs h pos s
        \<and> vredirect tabs' h ty args s = vredirect tabs h ty args s
        \<and> redirect tabs' h ty args s = redirect tabs h ty args s
        \<and> deliver tabs' h b s = deliver tabs h b s
        \<and> deliver_raw tabs' h p n s = deliver_raw tabs h p n s)"
  using assms
  by (simp add: close_def seek_def vredirect_def redirect_def deliver_def deliver_raw_def
      va_start_def Let_def)

text \<open>
  In the example, interface 1 is plugged into interface 2, whose table is \<open>tag_ops 2\<close>:
  a seek to 40 on interface 1 returns 42, also when the table of interface 1 itself
  is replaced by \<open>hangup_ops\<close>, and five raw bytes delivered on it return 7.
\<close>

theorem dispatch_calls_partner_method_witness:
  "seek example_tabs (Xfer 1) 40 example_state = (42, example_state)
   \<and> seek (example_tabs(Ops 1 := hangup_ops)) (Xfer 1) 40 example_state = (42, example_state)
   \<and> deliver_raw example_tabs (Xfer 1) 100 5 example_state = (7, example_state)"
proof -
  have d: "Xfer 2 = xfer_dest example_state (Xfer 1)"
    by (simp add: xfer_dest_def example_intfs_Xfer example_dest_def)
  have t: "tag_ops 2 = example_tabs (op (intfs example_state (Xfer 2)))"
    by (simp add: example_intfs_Xfer example_tabs_Ops)
  have t': "(example_tabs(Ops 1 := hangup_ops)) (op (intfs example_state (Xfer 2))) = tag_ops 2"
    by (simp add: example_intfs_Xfer example_tabs_Ops)
  show ?thesis
    using dispatch_calls_partner_method
      [where d = "Xfer 2" and s = example_state and h = "Xfer 1" and t = "tag_ops 2"
         and tabs = example_tabs and rc = 0 and pos = 40 and ty = 0 and args = "[]"
         and b = "Iob 0" and p = 100 and n = 5, OF d t] t'
    by (simp add: tag_ops_def)
qed

text \<open>
  Claim C2. \<open>close\<close> first calls the close method of the destination of the handle,
  with the destination as receiver and the caller's reason code, and then unplugs
  the handle: whatever that method did to the store, the destination of the handle
  is the null interface afterwards. \<open>close\<close> returns the store only; it has no
  status.
\<close>

theorem close_notifies_then_unplugs:
  "close tabs h rc s =
     xfer_unplug h (op_close (tabs (op (intfs s (xfer_dest s h)))) (xfer_dest s h) rc s)
   \<and> xfer_dest (close tabs h rc s) h = Null_xfer"
  by (simp add: close_def Let_def xfer_dest_unplug)



text \<open>
  Claim C7. \<open>redirect\<close> packages its trailing arguments with \<open>va_start\<close>, which keeps
  them as they are, and returns what \<open>vredirect\<close> returns on the same handle, type and
  arguments: status and store.
\<close>

theorem redirect_is_vredirect:
  "redirect tabs h t varargs s = vredirect tabs h t (va_start varargs) s
   \<and> va_start varargs = varargs"
  by (simp add: redirect_def va_start_def)



subsection \<open>Helper methods\<close>

text \<open>
  Claim C8. The ignore helpers do nothing, for every receiver and every input:
  \<open>ignore_close\<close> leaves the store as it is, and \<open>ignore_seek\<close>, \<open>ignore_vredirect\<close>
  and \<open>ignore_deliver_raw\<close> return the status 0 and the store as it is, so that
  nothing of their input is kept.
\<close>

theorem ignore_helpers_no_op:
  "ignore_close h rc s = s
   \<and> ignore_seek h pos s = (0, s)
   \<and> ignore_vredirect h t args s = (0, s)
   \<and> ignore_deliver_raw h p n s = (0, s)"
  by (simp add: ignore_close_def ignore_seek_def ignore_vredirect_def ignore_deliver_raw_def)

text \<open>
  Claim C4. \<open>deliver_as_raw\<close> calls the \<open>deliver_raw\<close> method of the receiver's own
  table, with the receiver itself, the buffer's byte pointer and the buffer's length
  (which delimit the bytes the buffer holds), and then releases the buffer: the
  release log of the result is the log that the method left, followed by the buffer,
  once, whatever status the method returned. The table of the receiver's destination
  plays no part: any table memory that agrees on the receiver's own table gives the
  same outcome.
\<close>

theorem deliver_as_raw_own_method:
  assumes "r = op_deliver_raw (tabs (op (intfs s h))) h (data (iobufs s b)) (iob_len (iobufs s b)) s"
  shows "deliver_as_raw tabs h b s = (fst r, free_iob b (snd r))
   \<and> released (snd (deliver_as_raw tabs h b s)) = released (snd r) @ [b]
   \<and> read_bytes s (data (iobufs s b)) (iob_len (iobufs s b)) = iob_bytes s b
   \<and> (\<forall>tabs'. tabs' (op (intfs s h)) = tabs (op (intfs s h)) \<longrightarrow>
         deliver_as_raw tabs' h b s = deliver_as_raw tabs h b s)"
  using assms
  by (simp add: deliver_as_raw_def free_iob_def iob_bytes_def split: prod.split)

text \<open>
  In the example, interface 2 accepts the five bytes with status 7 and interface 9
  answers with the error \<open>-5\<close>; the buffer is released once in both cases.
\<close>

theorem deliver_as_raw_own_method_witness:
  "deliver_as_raw example_tabs (Xfer 2) (Iob 0) example_state
     = (7, free_iob (Iob 0) example_state)
   \<and> fst (deliver_as_raw example_tabs (Xfer 9) (Iob 0) example_state) = - 5
   \<and> released (snd (deliver_as_raw example_tabs (Xfer 9) (Iob 0) example_state)) = [Iob 0]"
proof -
  have b: "iobufs example_state (Iob 0) = \<lparr>data = 100, dlen = 5\<rparr>"
    by (simp add: example_state_def)
  have r2: "(7, example_state) =
      op_deliver_raw (example_tabs (op (intfs example_state (Xfer 2)))) (Xfer 2)
        (data (iobufs example_state (Iob 0))) (iob_len (iobufs example_state (Iob 0)))
        example_state"
    by (simp add: example_intfs_Xfer example_tabs_Ops tag_ops_def b iob_len_def)
  have r9: "(- 5, hangup (Xfer 9) example_state) =
      op_deliver_raw (example_tabs (op (intfs example_state (Xfer 9)))) (Xfer 9)
        (data (iobufs example_state (Iob 0))) (iob_len (iobufs example_state (Iob 0)))
        example_state"
    by (simp add: example_intfs_Xfer example_tabs_Ops hangup_ops_def)
  have rel: "released (hangup (Xfer 9) example_state) = []"
    by (simp add: hangup_def released_unplug example_state_def)
  note spec = deliver_as_raw_own_method
    [where tabs = example_tabs and b = "Iob 0" and s = example_state]
  show ?thesis
    using spec [where h = "Xfer 2" and r = "(7, example_state)", OF r2]
      spec [where h = "Xfer 9" and r = "(- 5, hangup (Xfer 9) example_state)", OF r9]
    by (simp add: rel free_iob_def)
qed

text \<open>
  The store that \<open>deliver_as_iobuf\<close> hands to the \<open>deliver\<close> method, written out:
  the store it was called on, with the new descriptor, the copied bytes and the
  allocator moved on by \<open>n\<close> bytes; nothing else differs.
\<close>

lemma filled_store:
  assumes "alloc_iob n s = (Some b, s1)"
  shows "memcpy (heap_next s) p n (snd (iob_put b n s1)) =
     s\<lparr>iobufs := (iobufs s)(Iob (iob_next s) := \<lparr>data = heap_next s, dlen = n\<rparr>),
       mem := (\<lambda>a. if heap_next s \<le> a \<and> a < heap_next s + n
                    then mem s (p + (a - heap_next s)) else mem s a),
       iob_next := Suc (iob_next s),
       heap_next := heap_next s + n,
       heap_avail := heap_avail s - n\<rparr>"
  by (simp add: alloc_iob_Some [OF assms] memcpy_def iob_put_def Let_def cong: if_cong)

lemma iob_bytes_free_iob: "iob_bytes (free_iob c s) b = iob_bytes s b"
  by (simp add: iob_bytes_def read_bytes_def free_iob_def)

lemma iobufs_free_iob: "iobufs (free_iob c s) = iobufs s"
  by (simp add: free_iob_def)

lemma heap_avail_free_iob: "heap_avail (free_iob c s) = heap_avail s"
  by (simp add: free_iob_def)

lemma released_free_iob: "released (free_iob c s) = released s @ [c]"
  by (simp add: free_iob_def)

text \<open>
  Claim C3. When the allocation fails, \<open>deliver_as_iobuf\<close> returns \<open>-ENOMEM\<close> and the
  store it was called on, unchanged, whatever the tables hold: no method is called,
  the caller's bytes are as they were and nothing is released. When the allocation
  succeeds with the buffer \<open>b\<close>, \<open>b\<close> is the fresh descriptor and
  \<open>deliver_as_iobuf\<close> is one call of the \<open>deliver\<close> method of the receiver's own
  table, with the receiver itself and \<open>b\<close>, on the store \<open>s3\<close> that differs from
  the store of the call in this only: the descriptor \<open>b\<close> points at the newly
  allocated region and has length \<open>n\<close>, the \<open>n\<close> bytes of that region are the
  \<open>n\<close> bytes at the caller's pointer, every other byte of memory is as it was, and
  the allocator has moved on by \<open>n\<close> bytes. This \<open>s3\<close> is what \<open>iob_put\<close> and
  \<open>memcpy\<close> make of the store that the allocation returned. In it \<open>b\<close> holds
  exactly \<open>n\<close> bytes, equal to the \<open>n\<close> bytes at the caller's pointer, and the
  interfaces, the counters and the release log are as before.
\<close>

theorem deliver_as_iobuf_copies_or_fails:
  "(alloc_iob n s = (None, s1) \<longrightarrow>
      deliver_as_iobuf tabs E h p n s = (- E, s)
    \<and> (\<forall>tabs'. deliver_as_iobuf tabs' E h p n s = (- E, s)))
   \<and> (\<forall>s3. alloc_iob n s = (Some b, s1)
          \<and> s3 = s\<lparr>iobufs := (iobufs s)(Iob (iob_next s) := \<lparr>data = heap_next s, dlen = n\<rparr>),
                   mem := (\<lambda>a. if heap_next s \<le> a \<and> a < heap_next s + n
                                then mem s (p + (a - heap_next s)) else mem s a),
                   iob_next := Suc (iob_next s),
                   heap_next := heap_next s + n,
                   heap_avail := heap_avail s - n\<rparr> \<longrightarrow>
        b = Iob (iob_next s)
      \<and> deliver_as_iobuf tabs E h p n s = op_deliver (tabs (op (intfs s h))) h b s3
      \<and> s3 = memcpy (heap_next s) p n (snd (iob_put b n s1))
      \<and> iob_bytes s3 b = read_bytes s p n
      \<and> iob_len (iobufs s3 b) = n
      \<and> intfs s3 = intfs s \<and> released s3 = released s \<and> refcnts s3 = refcnts s)"
proof (intro conjI)
  show "alloc_iob n s = (None, s1) \<longrightarrow>
      deliver_as_iobuf tabs E h p n s = (- E, s)
    \<and> (\<forall>tabs'. deliver_as_iobuf tabs' E h p n s = (- E, s))"
  proof
    assume "alloc_iob n s = (None, s1)"
    then have "alloc_iob n s = (None, s)"
      using alloc_iob_None by blast
    then show "deliver_as_iobuf tabs E h p n s = (- E, s)
        \<and> (\<forall>tabs'. deliver_as_iobuf tabs' E h p n s = (- E, s))"
      by (simp add: deliver_as_iobuf_def)
  qed
next
  show "\<forall>s3. alloc_iob n s = (Some b, s1)
          \<and> s3 = s\<lparr>iobufs := (iobufs s)(Iob (iob_next s) := \<lparr>data = heap_next s, dlen = n\<rparr>),
                   mem := (\<lambda>a. if heap_next s \<le> a \<and> a < heap_next s + n
                                then mem s (p + (a - heap_next s)) else mem s a),
                   iob_next := Suc (iob_next s),
                   heap_next := heap_next s + n,
                   heap_avail := heap_avail s - n\<rparr> \<longrightarrow>
        b = Iob (iob_next s)
      \<and> deliver_as_iobuf tabs E h p n s = op_deliver (tabs (op (intfs s h))) h b s3
      \<and> s3 = memcpy (heap_next s) p n (snd (iob_put b n s1))
      \<and> iob_bytes s3 b = read_bytes s p n
      \<and> iob_len (iobufs s3 b) = n
      \<and> intfs s3 = intfs s \<and> released s3 = released s \<and> refcnts s3 = refcnts s"
  proof (intro allI impI, elim conjE)
    fix s3
    assume a: "alloc_iob n s = (Some b, s1)"
      and e: "s3 = s\<lparr>iobufs := (iobufs s)(Iob (iob_next s) := \<lparr>data = heap_next s, dlen = n\<rparr>),
                   mem := (\<lambda>a. if heap_next s \<le> a \<and> a < heap_next s + n
                                then mem s (p + (a - heap_next s)) else mem s a),
                   iob_next := Suc (iob_next s),
                   heap_next := heap_next s + n,
                   heap_avail := heap_avail s - n\<rparr>"
    have s3: "s3 = memcpy (heap_next s) p n (snd (iob_put b n s1))"
      unfolding e by (rule filled_store [OF a, symmetric])
    have "deliver_as_iobuf tabs E h p n s = op_deliver (tabs (op (intfs s h))) h b s3"
      unfolding s3 by (rule deliver_as_iobuf_Some [OF a])
    with alloc_iob_Some(1) [OF a] s3 filled_buffer [OF a s3]
    show "b = Iob (iob_next s)
      \<and> deliver_as_iobuf tabs E h p n s = op_deliver (tabs (op (intfs s h))) h b s3
      \<and> s3 = memcpy (heap_next s) p n (snd (iob_put b n s1))
      \<and> iob_bytes s3 b = read_bytes s p n
      \<and> iob_len (iobufs s3 b) = n
      \<and> intfs s3 = intfs s \<and> released s3 = released s \<and> refcnts s3 = refcnts s"
      by (intro conjI)
  qed
qed

text \<open>
  In the example, with three bytes left in the pool a delivery of five bytes fails
  with \<open>-12\<close> and changes nothing; with 64 bytes left, interface 2 receives the new
  buffer 1, which lies at address 200, holds \<open>hello\<close> and took five bytes of the
  pool, answers 2 and releases the buffer.
\<close>

theorem deliver_as_iobuf_copies_or_fails_witness:
  "deliver_as_iobuf example_tabs 12 (Xfer 2) 100 5 (example_state\<lparr>heap_avail := 3\<rparr>)
     = (- 12, example_state\<lparr>heap_avail := 3\<rparr>)
   \<and> fst (deliver_as_iobuf example_tabs 12 (Xfer 2) 100 5 example_state) = 2
   \<and> iob_bytes (snd (deliver_as_iobuf example_tabs 12 (Xfer 2) 100 5 example_state)) (Iob 1)
       = hello
   \<and> iobufs (snd (deliver_as_iobuf example_tabs 12 (Xfer 2) 100 5 example_state)) (Iob 1)
       = \<lparr>data = 200, dlen = 5\<rparr>
   \<and> heap_avail (snd (deliver_as_iobuf example_tabs 12 (Xfer 2) 100 5 example_state)) = 59
   \<and> released (snd (deliver_as_iobuf example_tabs 12 (Xfer 2) 100 5 example_state)) = [Iob 1]"
proof -
  let ?full = "example_state\<lparr>heap_avail := 3\<rparr>"
  let ?s1 = "snd (alloc_iob 5 example_state)"
  let ?s3 = "example_state
    \<lparr>iobufs := (iobufs example_state)
        (Iob (iob_next example_state) := \<lparr>data = heap_next example_state, dlen = 5\<rparr>),
     mem := (\<lambda>a. if heap_next example_state \<le> a \<and> a < heap_next example_state + 5
                  then mem example_state (100 + (a - heap_next example_state))
                  else mem example_state a),
     iob_next := Suc (iob_next example_state),
     heap_next := heap_next example_state + 5,
     heap_avail := heap_avail example_state - 5\<rparr>"
  have t: "example_tabs (op (intfs example_state (Xfer 2))) = tag_ops 2"
    by (simp add: example_intfs_Xfer example_tabs_Ops)
  have none: "alloc_iob 5 ?full = (None, ?full)"
    by (rule example_alloc_fails)
  have some: "alloc_iob 5 example_state = (Some (Iob 1), ?s1) \<and> ?s3 = ?s3"
    by (simp add: example_alloc)
  note inst = deliver_as_iobuf_copies_or_fails
    [where n = 5 and tabs = example_tabs and E = 12 and h = "Xfer 2" and p = 100]
  have fails: "deliver_as_iobuf example_tabs 12 (Xfer 2) 100 5 ?full = (- 12, ?full)"
    using inst [where s = ?full and ?s1.0 = ?full] none by blast
  note ok = inst [where s = example_state and ?s1.0 = ?s1 and b = "Iob 1",
      THEN conjunct2, THEN spec, of ?s3, THEN mp, OF some]
  from ok have call: "deliver_as_iobuf example_tabs 12 (Xfer 2) 100 5 example_state
      = op_deliver (example_tabs (op (intfs example_state (Xfer 2)))) (Xfer 2) (Iob 1) ?s3"
    and bytes: "iob_bytes ?s3 (Iob 1) = read_bytes example_state 100 5"
    by blast+
  have res: "deliver_as_iobuf example_tabs 12 (Xfer 2) 100 5 example_state
      = (2, free_iob (Iob 1) ?s3)"
    unfolding call t by (simp add: tag_ops_def)
  have st: "iobufs ?s3 (Iob 1) = \<lparr>data = 200, dlen = 5\<rparr>" "heap_avail ?s3 = 59"
    "released ?s3 = []"
    by (simp_all add: example_state_def)
  have c1: "iob_bytes (free_iob (Iob 1) ?s3) (Iob 1) = hello"
    by (simp only: iob_bytes_free_iob bytes example_read_hello)
  have c2: "iobufs (free_iob (Iob 1) ?s3) (Iob 1) = \<lparr>data = 200, dlen = 5\<rparr>"
    by (simp only: iobufs_free_iob st)
  have c3: "heap_avail (free_iob (Iob 1) ?s3) = 59"
    by (simp only: heap_avail_free_iob st)
  have c4: "released (free_iob (Iob 1) ?s3) = [Iob 1]"
    by (simp only: released_free_iob st append_Nil)
  show ?thesis
    unfolding res fst_conv snd_conv
    using fails c1 c2 c3 c4 by (intro conjI refl)
qed

text \<open>
  Claim C10. The adaptors return the status of the method they call. The status of
  \<open>deliver_as_raw\<close> is the status that the receiver's own \<open>deliver_raw\<close> method
  returned, although the buffer is released after that call; the status of
  \<open>deliver_as_iobuf\<close>, when the allocation succeeds, is the status that the
  receiver's own \<open>deliver\<close> method returned for the new, filled buffer.
\<close>

theorem adaptors_return_inner_status:
  "fst (deliver_as_raw tabs h b s) =
     fst (op_deliver_raw (tabs (op (intfs s h))) h (data (iobufs s b)) (iob_len (iobufs s b)) s)
   \<and> (alloc_iob n s = (Some b', s1) \<longrightarrow>
        fst (deliver_as_iobuf tabs E h p n s) =
        fst (op_deliver (tabs (op (intfs s h))) h b'
               (memcpy (heap_next s) p n (snd (iob_put b' n s1)))))"
  by (simp add: deliver_as_raw_def deliver_as_iobuf_Some split: prod.split)

text \<open>In the example the statuses 7 and 2 of interface 2 come back to the caller.\<close>

theorem adaptors_return_inner_status_witness:
  "fst (deliver_as_raw example_tabs (Xfer 2) (Iob 0) example_state) = 7
   \<and> fst (deliver_as_iobuf example_tabs 12 (Xfer 2) 100 5 example_state) = 2"
proof -
  have b: "iobufs example_state (Iob 0) = \<lparr>data = 100, dlen = 5\<rparr>"
    by (simp add: example_state_def)
  have t: "example_tabs (op (intfs example_state (Xfer 2))) = tag_ops 2"
    by (simp add: example_intfs_Xfer example_tabs_Ops)
  show ?thesis
    using adaptors_return_inner_status
      [where tabs = example_tabs and h = "Xfer 2" and b = "Iob 0" and s = example_state
         and n = 5 and b' = "Iob 1" and E = 12 and p = 100] example_alloc
    by (simp add: t b iob_len_def tag_ops_def)
qed

subsection \<open>The null interface\<close>

text \<open>
  Claim C5. The null interface is its own destination, has no shared-ownership
  counter and points to the table \<open>null_xfer_ops\<close>, whose methods are \<open>ignore_close\<close>,
  \<open>ignore_vredirect\<close>, \<open>ignore_seek\<close>, \<open>deliver_as_raw\<close> and \<open>ignore_deliver_raw\<close>.
  Hence, in a store where the null interface is intact, for every handle whose
  destination is the null interface and every input: \<open>close\<close> leaves the store as
  it is; \<open>seek\<close>, \<open>vredirect\<close> and \<open>redirect\<close> return 0 and the store as it is;
  \<open>deliver_raw\<close> returns 0 and the store as it is, the data being dropped; and
  \<open>deliver\<close> returns 0 and releases the buffer, changing nothing else.
\<close>

theorem null_xfer_absorbs:
  "intf null_xfer = \<lparr>dest = Null_xfer, refcnt = None\<rparr>
   \<and> op null_xfer = Null_xfer_ops
   \<and> null_xfer_ops tabs =
       \<lparr>op_close = ignore_close, op_vredirect = ignore_vredirect, op_seek = ignore_seek,
        op_deliver = deliver_as_raw tabs, op_deliver_raw = ignore_deliver_raw\<rparr>
   \<and> (null_intact tabs s \<and> xfer_dest s h = Null_xfer \<longrightarrow>
        close tabs h rc s = s
      \<and> seek tabs h pos s = (0, s)
      \<and> vredirect tabs h t args s = (0, s)
      \<and> redirect tabs h t args s = (0, s)
      \<and> deliver_raw tabs h p n s = (0, s)
      \<and> deliver tabs h b s = (0, free_iob b s)
      \<and> xfer_dest s Null_xfer = Null_xfer)"
proof -
  have "close tabs h rc s = s" if "null_intact tabs s" "xfer_dest s h = Null_xfer"
    using that
    by (simp add: null_intact_def close_def Let_def null_xfer_def null_xfer_ops_def
        ignore_close_def xfer_unplug_idle)
  then show ?thesis
    by (simp add: null_intact_def null_xfer_def null_xfer_ops_def seek_def vredirect_def
        redirect_def deliver_def deliver_raw_def deliver_as_raw_def va_start_def
        ignore_seek_def ignore_vredirect_def ignore_deliver_raw_def xfer_dest_def [of _ Null_xfer])
qed

text \<open>In the example, interface 3 is unplugged and every message sent on it is absorbed.\<close>

theorem null_xfer_absorbs_witness:
  "null_intact example_tabs example_state
   \<and> xfer_dest example_state (Xfer 3) = Null_xfer
   \<and> close example_tabs (Xfer 3) (- 104) example_state = example_state
   \<and> seek example_tabs (Xfer 3) 100 example_state = (0, example_state)
   \<and> redirect example_tabs (Xfer 3) 1 [Va_int 80] example_state = (0, example_state)
   \<and> deliver_raw example_tabs (Xfer 3) 100 5 example_state = (0, example_state)
   \<and> deliver example_tabs (Xfer 3) (Iob 0) example_state = (0, free_iob (Iob 0) example_state)"
proof -
  have i: "null_intact example_tabs example_state"
    by (simp add: null_intact_def example_intfs_null example_tabs_null)
  have d: "xfer_dest example_state (Xfer 3) = Null_xfer"
    by (simp add: xfer_dest_def example_intfs_Xfer example_dest_def)
  show ?thesis
    using null_xfer_absorbs
      [where tabs = example_tabs and s = example_state and h = "Xfer 3" and rc = "- 104"
         and pos = 100 and t = 1 and args = "[Va_int 80]" and p = 100 and n = 5 and b = "Iob 0"]
      i d
    by simp
qed

end
